theory Spec2Isabelle
  imports Complex_Main
begin

section \<open>Cost analytics service: data model\<close>

text \<open>
  The service (\<^verbatim>\<open>Main_Go_Service.go\<close>) reads a billing table through three SQL queries
  that it builds as strings, and post-processes the rows in Go. Both halves are embedded:
  each SQL query as a function from the table to the rows it returns, each Go loop as a
  function from those rows to the values the method returns.

  Numbers. Go's \<^verbatim>\<open>float64\<close> and SQL's \<^verbatim>\<open>FLOAT64\<close> are modelled by \<^typ>\<open>real\<close>: rounding
  and overflow are not modelled, and the billing table holds finite numbers only. Where
  a Go division can meet a zero divisor the IEEE result (an infinity or NaN, never a
  panic) is written out with the type \<open>float64\<close> below. Where a property is about the
  exact value of a result, the regression of \<^verbatim>\<open>ForecastCosts\<close> is embedded a second time
  with every operation rounded to binary64 (the functions named \<open>_f64\<close>). Go's \<^verbatim>\<open>int\<close> is
  modelled by \<^typ>\<open>int\<close>; the only arithmetic on it is the loop counter of
  \<^verbatim>\<open>ForecastCosts\<close>.

  Dates. A \<^verbatim>\<open>DATE\<close> is the number of the day (days since the epoch, UTC); a
  \<^verbatim>\<open>TIMESTAMP\<close> is the number of microseconds since the epoch.
\<close>

type_synonym date = int
type_synonym timestamp = int

text \<open>The columns of the billing export that the queries read.\<close>

record billing_row =
  usage_start_time :: timestamp
  project_id :: string
  service_description :: string
  cost :: real
  credits :: "real list"

text \<open>\<^verbatim>\<open>type CostTrend struct\<close>; a Go map is a partial function, \<^verbatim>\<open>nil\<close> the empty one.\<close>

record CostTrend =
  Date :: date
  TotalCost :: real
  ServiceCost :: "string \<rightharpoonup> real"
  ProjectCost :: "string \<rightharpoonup> real"

text \<open>A \<^verbatim>\<open>float64\<close> that may be the outcome of a division by zero.\<close>

datatype float64 = Finite real | PosInf | NegInf | NaN

text \<open>
  \<^verbatim>\<open>type Anomaly struct\<close>. The field \<^verbatim>\<open>Description\<close>, a formatted message built from
  the other fields, is left out.
\<close>

record Anomaly =
  ADate :: date
  ProjectID :: string
  ServiceName :: string
  ActualCost :: real
  ExpectedCost :: real
  DeviationPct :: float64
  Severity :: string

text \<open>The errors the methods return (\<^verbatim>\<open>fmt.Errorf\<close>).\<close>

datatype error =
  QueryFailed           \<comment> \<open>\<^verbatim>\<open>failed to execute query\<close>\<close>
| AnomalyQueryFailed    \<comment> \<open>\<^verbatim>\<open>failed to execute anomaly query\<close>\<close>
| InsufficientData      \<comment> \<open>\<^verbatim>\<open>insufficient data for forecasting\<close>\<close>

text \<open>
  What the methods see of BigQuery through \<^verbatim>\<open>ca.bqClient\<close>: the table, the value of
  \<^verbatim>\<open>CURRENT_DATE()\<close>, whether \<^verbatim>\<open>q.Read\<close> fails, and after how many rows \<^verbatim>\<open>it.Next\<close>
  returns an error other than the end of the rows, if it does.
\<close>

record bq_client =
  billing :: "billing_row list"
  current_date :: date
  read_fails :: bool
  next_fails_after :: "nat option"

section \<open>SQL building blocks\<close>

definition DATE :: "timestamp \<Rightarrow> date" where
  "DATE t = t div 86400000000"

text \<open>\<^verbatim>\<open>SUM\<close> over the rows of a subquery: \<^verbatim>\<open>NULL\<close> when there is no row.\<close>

definition SUM_sql :: "real list \<Rightarrow> real option" where
  "SUM_sql xs = (if xs = [] then None else Some (sum_list xs))"

definition IFNULL :: "'a option \<Rightarrow> 'a \<Rightarrow> 'a" where
  "IFNULL v d = (case v of None \<Rightarrow> d | Some x \<Rightarrow> x)"

definition NULLIF :: "real option \<Rightarrow> real \<Rightarrow> real option" where
  "NULLIF v z = (case v of None \<Rightarrow> None | Some x \<Rightarrow> if x = z then None else Some x)"

text \<open>\<^verbatim>\<open>IFNULL((SELECT SUM(amount) FROM UNNEST(credits)), 0)\<close>\<close>

definition credit_total :: "billing_row \<Rightarrow> real" where
  "credit_total r = IFNULL (SUM_sql (credits r)) 0"

text \<open>
  \<^verbatim>\<open>GROUP BY\<close>: one group per distinct key, holding the rows with that key in their
  order. SQL leaves the order of the groups open; the model takes the order of
  \<^const>\<open>remdups\<close>.
\<close>

definition group_by :: "('r \<Rightarrow> 'k) \<Rightarrow> 'r list \<Rightarrow> ('k \<times> 'r list) list" where
  "group_by key rows = map (\<lambda>k. (k, filter (\<lambda>r. key r = k) rows)) (remdups (map key rows))"

text \<open>\<^verbatim>\<open>AVG\<close> and \<^verbatim>\<open>STDDEV\<close> (the sample standard deviation, \<^verbatim>\<open>NULL\<close> below two rows).\<close>

definition AVG :: "real list \<Rightarrow> real" where
  "AVG xs = sum_list xs / real (length xs)"

definition STDDEV :: "real list \<Rightarrow> real option" where
  "STDDEV xs =
     (if length xs < 2 then None
      else Some (sqrt (sum_list (map (\<lambda>x. (x - AVG xs)\<^sup>2) xs) / real (length xs - 1))))"

section \<open>GetCostTrends\<close>

text \<open>The CTE \<^verbatim>\<open>daily_costs\<close>: one row per (date, project, service).\<close>

record daily_costs_row =
  dc_usage_date :: date
  dc_project_id :: string
  dc_service_name :: string
  dc_total_cost :: real
  dc_total_credits :: real

definition daily_costs :: "billing_row list \<Rightarrow> date \<Rightarrow> int \<Rightarrow> daily_costs_row list" where
  "daily_costs table today days =
     map (\<lambda>((d, p, s), g).
            \<lparr>dc_usage_date = d, dc_project_id = p, dc_service_name = s,
             dc_total_cost = sum_list (map cost g),
             dc_total_credits = sum_list (map credit_total g)\<rparr>)
       (group_by (\<lambda>r. (DATE (usage_start_time r), project_id r, service_description r))
          (filter (\<lambda>r. DATE (usage_start_time r) \<ge> today - days) table))"

text \<open>
  The row the Go loop scans: the CTE \<^verbatim>\<open>aggregated_costs\<close>, one row per date, with the
  two \<^verbatim>\<open>ARRAY_AGG\<close> columns as lists of pairs.
\<close>

record trends_row =
  UsageDate :: date
  DailyTotal :: real
  ServiceCosts :: "(string \<times> real) list"
  ProjectCosts :: "(string \<times> real) list"

definition aggregated_costs :: "daily_costs_row list \<Rightarrow> trends_row list" where
  "aggregated_costs dcs =
     sort_key UsageDate
       (map (\<lambda>(d, g).
              \<lparr>UsageDate = d,
               DailyTotal = sum_list (map (\<lambda>r. dc_total_cost r + dc_total_credits r) g),
               ServiceCosts = map (\<lambda>r. (dc_service_name r, dc_total_cost r + dc_total_credits r)) g,
               ProjectCosts = map (\<lambda>r. (dc_project_id r, dc_total_cost r + dc_total_credits r)) g\<rparr>)
          (group_by dc_usage_date dcs))"

definition cost_trends_query :: "billing_row list \<Rightarrow> date \<Rightarrow> int \<Rightarrow> trends_row list" where
  "cost_trends_query table today days = aggregated_costs (daily_costs table today days)"

text \<open>
  The rows a loop \<^verbatim>\<open>for { err := it.Next(&row); if err != nil { break } ... }\<close> sees:
  all of them, or those before the first failure of \<^verbatim>\<open>it.Next\<close>.
\<close>

definition rows_read :: "bq_client \<Rightarrow> 'r list \<Rightarrow> 'r list" where
  "rows_read ca rows = (case next_fails_after ca of None \<Rightarrow> rows | Some k \<Rightarrow> take k rows)"

text \<open>
  \<^verbatim>\<open>m := make(map[string]float64); for _, e := range es { m[e.key] = e.Cost }\<close>:
  a later element with the same key replaces the earlier one.
\<close>

definition collect_costs :: "(string \<times> real) list \<Rightarrow> (string \<rightharpoonup> real)" where
  "collect_costs es = fold (\<lambda>e m. m(fst e \<mapsto> snd e)) es Map.empty"

definition trend_of_row :: "trends_row \<Rightarrow> CostTrend" where
  "trend_of_row row =
     \<lparr>Date = UsageDate row, TotalCost = DailyTotal row,
      ServiceCost = collect_costs (ServiceCosts row),
      ProjectCost = collect_costs (ProjectCosts row)\<rparr>"

definition GetCostTrends :: "bq_client \<Rightarrow> int \<Rightarrow> error + CostTrend list" where
  "GetCostTrends ca days =
     (if read_fails ca then Inl QueryFailed
      else Inr (map trend_of_row
                  (rows_read ca (cost_trends_query (billing ca) (current_date ca) days))))"

text \<open>The sum of the values of a Go map.\<close>

definition sum_values :: "(string \<rightharpoonup> real) \<Rightarrow> real" where
  "sum_values m = (\<Sum>k\<in>dom m. case m k of None \<Rightarrow> 0 | Some v \<Rightarrow> v)"

section \<open>DetectAnomalies\<close>

text \<open>
  The CTEs \<^verbatim>\<open>historical_data\<close> and \<^verbatim>\<open>recent_costs\<close> share their shape: one row per
  (date, project, service) with the net cost of that day,
  \<^verbatim>\<open>SUM(cost + IFNULL((SELECT SUM(amount) FROM UNNEST(credits)), 0))\<close>.
\<close>

record daily_cost_row =
  h_usage_date :: date
  h_project_id :: string
  h_service_name :: string
  h_daily_cost :: real

definition per_day_costs :: "billing_row list \<Rightarrow> daily_cost_row list" where
  "per_day_costs rows =
     map (\<lambda>((d, p, s), g).
            \<lparr>h_usage_date = d, h_project_id = p, h_service_name = s,
             h_daily_cost = sum_list (map (\<lambda>r. cost r + credit_total r) g)\<rparr>)
       (group_by (\<lambda>r. (DATE (usage_start_time r), project_id r, service_description r)) rows)"

definition historical_data :: "billing_row list \<Rightarrow> date \<Rightarrow> int \<Rightarrow> daily_cost_row list" where
  "historical_data table today days =
     per_day_costs (filter (\<lambda>r. DATE (usage_start_time r) \<ge> today - days) table)"

definition recent_costs :: "billing_row list \<Rightarrow> date \<Rightarrow> daily_cost_row list" where
  "recent_costs table today =
     per_day_costs (filter (\<lambda>r. DATE (usage_start_time r) = today - 1) table)"

text \<open>The CTE \<^verbatim>\<open>stats\<close>, with its \<^verbatim>\<open>WHERE\<close> and its \<^verbatim>\<open>HAVING COUNT(*) >= 7\<close>.\<close>

record stats_row =
  s_project_id :: string
  s_service_name :: string
  avg_cost :: real
  stddev_cost :: "real option"
  data_points :: nat

definition stats :: "daily_cost_row list \<Rightarrow> date \<Rightarrow> stats_row list" where
  "stats hist today =
     filter (\<lambda>s. data_points s \<ge> 7)
       (map (\<lambda>((p, s), g).
              \<lparr>s_project_id = p, s_service_name = s,
               avg_cost = AVG (map h_daily_cost g),
               stddev_cost = STDDEV (map h_daily_cost g),
               data_points = length g\<rparr>)
          (group_by (\<lambda>h. (h_project_id h, h_service_name h))
             (filter (\<lambda>h. h_usage_date h < today - 1) hist)))"

text \<open>The row the Go loop scans.\<close>

record anomaly_row =
  RUsageDate :: date
  RProjectID :: string
  RServiceName :: string
  RActualCost :: real
  RExpectedCost :: real
  RStddevCost :: real
  RZScore :: real

text \<open>
  One pair of the join. \<^verbatim>\<open>ABS(r.daily_cost - s.avg_cost) / NULLIF(s.stddev_cost, 0)\<close> is
  \<^verbatim>\<open>NULL\<close> when the standard deviation is zero, and \<^verbatim>\<open>WHERE NULL > t\<close> keeps no row.
\<close>

definition join_row :: "real \<Rightarrow> daily_cost_row \<Rightarrow> stats_row \<Rightarrow> anomaly_row list" where
  "join_row t r s =
     (if h_project_id r = s_project_id s \<and> h_service_name r = s_service_name s then
        (case NULLIF (stddev_cost s) 0 of
           None \<Rightarrow> []
         | Some sd \<Rightarrow>
             if \<bar>h_daily_cost r - avg_cost s\<bar> / sd > t then
               [\<lparr>RUsageDate = h_usage_date r, RProjectID = h_project_id r,
                 RServiceName = h_service_name r, RActualCost = h_daily_cost r,
                 RExpectedCost = avg_cost s, RStddevCost = sd,
                 RZScore = \<bar>h_daily_cost r - avg_cost s\<bar> / sd\<rparr>]
             else [])
      else [])"

text \<open>The whole query; \<^verbatim>\<open>ORDER BY z_score DESC\<close> is a stable sort.\<close>

definition anomaly_query :: "billing_row list \<Rightarrow> date \<Rightarrow> int \<Rightarrow> real \<Rightarrow> anomaly_row list" where
  "anomaly_query table today days t =
     sort_key (\<lambda>row. - RZScore row)
       (concat (map (\<lambda>r. concat (map (join_row t r) (stats (historical_data table today days) today)))
                  (recent_costs table today)))"

text \<open>
  The threshold reaches the query through \<^verbatim>\<open>fmt.Sprintf\<close>'s \<^verbatim>\<open>%f\<close>: six digits after the
  point, rounded to nearest, ties to even.
\<close>

definition round_half_even :: "real \<Rightarrow> int" where
  "round_half_even x =
     (if x - of_int \<lfloor>x\<rfloor> < 1 / 2 then \<lfloor>x\<rfloor>
      else if x - of_int \<lfloor>x\<rfloor> > 1 / 2 then \<lfloor>x\<rfloor> + 1
      else if even \<lfloor>x\<rfloor> then \<lfloor>x\<rfloor> else \<lfloor>x\<rfloor> + 1)"

definition fmt_f :: "real \<Rightarrow> real" where
  "fmt_f t = of_int (round_half_even (t * 1000000)) / 1000000"

text \<open>
  Go's \<^verbatim>\<open>/\<close> and \<^verbatim>\<open>*\<close> on \<^verbatim>\<open>float64\<close> where the divisor may be zero (the sign of a
  zero is not modelled: a zero divisor is \<^verbatim>\<open>+0\<close>).
\<close>

definition fdiv :: "real \<Rightarrow> real \<Rightarrow> float64" where
  "fdiv a b =
     (if b \<noteq> 0 then Finite (a / b)
      else if a > 0 then PosInf else if a < 0 then NegInf else NaN)"

definition fmul :: "float64 \<Rightarrow> real \<Rightarrow> float64" where
  "fmul v c =
     (case v of
        Finite x \<Rightarrow> Finite (x * c)
      | PosInf \<Rightarrow> (if c > 0 then PosInf else if c < 0 then NegInf else NaN)
      | NegInf \<Rightarrow> (if c > 0 then NegInf else if c < 0 then PosInf else NaN)
      | NaN \<Rightarrow> NaN)"

definition severity_of :: "real \<Rightarrow> string" where
  "severity_of z = (if z > 3 then ''High'' else if z > 2 then ''Medium'' else ''Low'')"

definition anomaly_of_row :: "anomaly_row \<Rightarrow> Anomaly" where
  "anomaly_of_row row =
     \<lparr>ADate = RUsageDate row, ProjectID = RProjectID row, ServiceName = RServiceName row,
      ActualCost = RActualCost row, ExpectedCost = RExpectedCost row,
      DeviationPct = fmul (fdiv (RActualCost row - RExpectedCost row) (RExpectedCost row)) 100,
      Severity = severity_of (RZScore row)\<rparr>"

definition DetectAnomalies :: "bq_client \<Rightarrow> int \<Rightarrow> real \<Rightarrow> error + Anomaly list" where
  "DetectAnomalies ca days threshold =
     (if read_fails ca then Inl AnomalyQueryFailed
      else Inr (map anomaly_of_row
                  (rows_read ca
                     (anomaly_query (billing ca) (current_date ca) days (fmt_f threshold)))))"

text \<open>
  The historical daily-cost samples of a pair: the rows of \<^verbatim>\<open>historical_data\<close> before
  the evaluation day that \<^verbatim>\<open>stats\<close> groups under the pair.
\<close>

definition samples :: "billing_row list \<Rightarrow> date \<Rightarrow> int \<Rightarrow> string \<Rightarrow> string \<Rightarrow> real list" where
  "samples table today days p s =
     map h_daily_cost
       (filter (\<lambda>h. (h_project_id h, h_service_name h) = (p, s))
          (filter (\<lambda>h. h_usage_date h < today - 1) (historical_data table today days)))"

section \<open>ForecastCosts\<close>

text \<open>
  \<^verbatim>\<open>for i, trend := range trends { x := float64(i); y := trend.TotalCost; sumX += x; ... }\<close>
  with the accumulators \<open>(sumX, sumY, sumXY, sumX2)\<close>.
\<close>

fun sums_loop :: "nat \<Rightarrow> CostTrend list \<Rightarrow> real \<times> real \<times> real \<times> real \<Rightarrow> real \<times> real \<times> real \<times> real" where
  "sums_loop i [] acc = acc"
| "sums_loop i (trend # rest) (sumX, sumY, sumXY, sumX2) =
     sums_loop (Suc i) rest
       (sumX + real i, sumY + TotalCost trend, sumXY + real i * TotalCost trend,
        sumX2 + real i * real i)"

text \<open>The slope and the intercept, as the code computes them.\<close>

definition regression :: "CostTrend list \<Rightarrow> real \<times> real" where
  "regression trends =
     (let n = real (length trends);
          (sumX, sumY, sumXY, sumX2) = sums_loop 0 trends (0, 0, 0, 0);
          slope = (n * sumXY - sumX * sumY) / (n * sumX2 - sumX * sumX);
          intercept = (sumY - slope * sumX) / n
      in (slope, intercept))"

text \<open>
  One pass of \<^verbatim>\<open>for i := 1; i <= days; i++\<close>; \<^verbatim>\<open>AddDate(0, 0, i)\<close> moves the date by
  \<open>i\<close> days.
\<close>

definition forecast_point :: "CostTrend list \<Rightarrow> int \<Rightarrow> CostTrend" where
  "forecast_point trends i =
     (let (slope, intercept) = regression trends;
          x = real_of_int (int (length trends) + i - 1);
          predictedCost = slope * x + intercept
      in \<lparr>Date = Date (last trends) + i,
          TotalCost = (if predictedCost < 0 then TotalCost (last trends) * 0.9 else predictedCost),
          ServiceCost = Map.empty, ProjectCost = Map.empty\<rparr>)"

text \<open>The method after the call of \<^verbatim>\<open>GetCostTrends\<close>.\<close>

definition forecast :: "CostTrend list \<Rightarrow> int \<Rightarrow> error + CostTrend list" where
  "forecast trends days =
     (if length trends < 7 then Inl InsufficientData
      else Inr (map (forecast_point trends) [1..days]))"

definition ForecastCosts :: "bq_client \<Rightarrow> int \<Rightarrow> error + CostTrend list" where
  "ForecastCosts ca days =
     (case GetCostTrends ca 30 of
        Inl err \<Rightarrow> Inl err
      | Inr trends \<Rightarrow> forecast trends days)"

text \<open>
  The ordinary least-squares line through the points \<open>(i, ys ! i)\<close>, in closed form from
  the five sums \<open>\<Sigma>x\<close>, \<open>\<Sigma>y\<close>, \<open>\<Sigma>xy\<close>, \<open>\<Sigma>x\<^sup>2\<close> and \<open>n\<close>, as the specification words it.
\<close>

definition ols_slope :: "real list \<Rightarrow> real" where
  "ols_slope ys =
     (real (length ys) * (\<Sum>i<length ys. real i * ys ! i) - (\<Sum>i<length ys. real i) * (\<Sum>i<length ys. ys ! i))
      / (real (length ys) * (\<Sum>i<length ys. (real i)\<^sup>2) - (\<Sum>i<length ys. real i)\<^sup>2)"

definition ols_intercept :: "real list \<Rightarrow> real" where
  "ols_intercept ys =
     ((\<Sum>i<length ys. ys ! i) - ols_slope ys * (\<Sum>i<length ys. real i)) / real (length ys)"

text \<open>The floor rule of the specification.\<close>

definition floor_rule :: "real \<Rightarrow> real \<Rightarrow> real" where
  "floor_rule lastTotal predicted = (if predicted < 0 then 0.9 * lastTotal else predicted)"

section \<open>ForecastCosts with binary64 rounding\<close>

text \<open>
  Rounding to the nearest binary64 number, ties to even: a significand of 53 bits at the
  exponent of the argument. Overflow and subnormal results are not modelled; every value
  in the statements below is zero or far inside the normal range.
\<close>

definition rnd :: "real \<Rightarrow> real" where
  "rnd x =
     (if x = 0 then 0
      else of_int (round_half_even (x / 2 powr (of_int \<lfloor>log 2 \<bar>x\<bar>\<rfloor> - 52)))
           * 2 powr (of_int \<lfloor>log 2 \<bar>x\<bar>\<rfloor> - 52))"

text \<open>
  The statements of lines 346 to 373 once more, each \<^verbatim>\<open>+\<close>, \<^verbatim>\<open>-\<close>, \<^verbatim>\<open>*\<close> and \<^verbatim>\<open>/\<close> followed by
  its rounding; \<^verbatim>\<open>float64(i)\<close> and \<^verbatim>\<open>float64(len(trends))\<close> are exact, and the constant
  \<^verbatim>\<open>0.9\<close> is the binary64 number nearest to it. (A target on which Go fuses a product and
  a sum into one rounding computes the same value wherever the product is exact.)
\<close>

fun sums_loop_f64 :: "nat \<Rightarrow> CostTrend list \<Rightarrow> real \<times> real \<times> real \<times> real \<Rightarrow> real \<times> real \<times> real \<times> real" where
  "sums_loop_f64 i [] acc = acc"
| "sums_loop_f64 i (trend # rest) (sumX, sumY, sumXY, sumX2) =
     sums_loop_f64 (Suc i) rest
       (rnd (sumX + real i), rnd (sumY + TotalCost trend),
        rnd (sumXY + rnd (real i * TotalCost trend)),
        rnd (sumX2 + rnd (real i * real i)))"

definition regression_f64 :: "CostTrend list \<Rightarrow> real \<times> real" where
  "regression_f64 trends =
     (let n = real (length trends);
          (sumX, sumY, sumXY, sumX2) = sums_loop_f64 0 trends (0, 0, 0, 0);
          slope = rnd (rnd (rnd (n * sumXY) - rnd (sumX * sumY))
                       / rnd (rnd (n * sumX2) - rnd (sumX * sumX)));
          intercept = rnd (rnd (sumY - rnd (slope * sumX)) / n)
      in (slope, intercept))"

definition forecast_point_f64 :: "CostTrend list \<Rightarrow> int \<Rightarrow> CostTrend" where
  "forecast_point_f64 trends i =
     (let (slope, intercept) = regression_f64 trends;
          x = real_of_int (int (length trends) + i - 1);
          predictedCost = rnd (rnd (slope * x) + intercept)
      in \<lparr>Date = Date (last trends) + i,
          TotalCost = (if predictedCost < 0 then rnd (TotalCost (last trends) * rnd 0.9)
                       else predictedCost),
          ServiceCost = Map.empty, ProjectCost = Map.empty\<rparr>)"

definition forecast_f64 :: "CostTrend list \<Rightarrow> int \<Rightarrow> error + CostTrend list" where
  "forecast_f64 trends days =
     (if length trends < 7 then Inl InsufficientData
      else Inr (map (forecast_point_f64 trends) [1..days]))"

section \<open>Example data\<close>

text \<open>
  Billing rows for the examples below: one row per day for a project and a service, the
  client reading them on day 20, so that day 19 is the evaluation day and the days 12 to
  18 are its history.
\<close>

definition usage :: "date \<Rightarrow> string \<Rightarrow> string \<Rightarrow> real \<Rightarrow> real list \<Rightarrow> billing_row" where
  "usage d p s c cr = \<lparr>usage_start_time = d * 86400000000, project_id = p, service_description = s, cost = c, credits = cr\<rparr>"

definition history :: "string \<Rightarrow> string \<Rightarrow> real list \<Rightarrow> billing_row list" where
  "history p s cs = map (\<lambda>(d, c). usage d p s c []) (zip [12, 13, 14, 15, 16, 17, 18] cs)"

definition client :: "billing_row list \<Rightarrow> bq_client" where
  "client table = \<lparr>billing = table, current_date = 20, read_fails = False, next_fails_after = None\<rparr>"

definition flat_and_noisy :: "billing_row list" where
  "flat_and_noisy =
     history ''P'' ''S'' [10, 10, 10, 10, 10, 10, 10] @ [usage 19 ''P'' ''S'' 50 []] @
     history ''P'' ''T'' [11, 9, 11, 9, 11, 9, 10] @ [usage 19 ''P'' ''T'' 50 []]"

definition six_days :: "billing_row list" where
  "six_days = history ''P'' ''S'' [11, 9, 11, 9, 11, 9] @ [usage 19 ''P'' ''S'' 50 []]"

definition seven_days :: "billing_row list" where
  "seven_days = history ''P'' ''S'' [11, 9, 11, 9, 11, 9, 10] @ [usage 19 ''P'' ''S'' 50 []]"

definition at_three :: "billing_row list" where
  "at_three = history ''P'' ''S'' [11, 9, 11, 9, 11, 9, 10] @ [usage 19 ''P'' ''S'' 13 []]"

definition zero_mean :: "billing_row list" where
  "zero_mean =
     [usage 12 ''P'' ''S'' 5 [-4], usage 13 ''P'' ''S'' 5 [-6], usage 14 ''P'' ''S'' 5 [-4],
      usage 15 ''P'' ''S'' 5 [-6], usage 16 ''P'' ''S'' 5 [-4], usage 17 ''P'' ''S'' 5 [-6],
      usage 18 ''P'' ''S'' 5 [-5], usage 19 ''P'' ''S'' 40 []]"

definition overlapping :: "billing_row list" where
  "overlapping =
     [usage 19 ''P1'' ''S1'' 1 [], usage 19 ''P1'' ''S2'' 2 [], usage 19 ''P2'' ''S1'' 4 []]"

text \<open>
  Ten consecutive daily totals that grow by 5 a day from \<open>a\<close>, on the days 10 to 19; and a
  week whose totals fall, the last one negative through a credit.
\<close>

definition ramp :: "real \<Rightarrow> CostTrend list" where
  "ramp a = map (\<lambda>i. \<lparr>Date = 10 + int i, TotalCost = a + 5 * real i,
                        ServiceCost = Map.empty, ProjectCost = Map.empty\<rparr>)
       [0, 1, 2, 3, 4, 5, 6, 7, 8, 9]"

definition falling :: "billing_row list" where
  "falling = history ''P'' ''S'' [12, 10, 8, 6, 4, 2] @ [usage 18 ''P'' ''S'' 4 [-5]]"

section \<open>Properties of DetectAnomalies\<close>

text \<open>Unfolding the queries and the loops on concrete tables.\<close>

lemmas ev = DetectAnomalies_def client_def history_def usage_def rows_read_def anomaly_query_def
  stats_def historical_data_def recent_costs_def per_day_costs_def group_by_def DATE_def
  credit_total_def IFNULL_def SUM_sql_def NULLIF_def AVG_def STDDEV_def join_row_def
  anomaly_of_row_def severity_of_def fdiv_def fmul_def fmt_f_def round_half_even_def

lemmas ev_trends = GetCostTrends_def client_def history_def usage_def rows_read_def
  cost_trends_query_def aggregated_costs_def daily_costs_def group_by_def DATE_def credit_total_def IFNULL_def
  SUM_sql_def trend_of_row_def collect_costs_def

lemmas ev_forecast = ForecastCosts_def forecast_def forecast_point_def regression_def upto.simps

subsection \<open>The rows of the query\<close>

lemma anomaly_query_set:
  "set (anomaly_query table today days t) =
     (\<Union>r\<in>set (recent_costs table today).
        \<Union>b\<in>set (stats (historical_data table today days) today). set (join_row t r b))"
  by (simp add: anomaly_query_def)

lemma join_row_cases:
  "join_row t r b = [] \<or>
   (\<exists>sd. h_project_id r = s_project_id b \<and> h_service_name r = s_service_name b
      \<and> stddev_cost b = Some sd \<and> sd \<noteq> 0 \<and> t < \<bar>h_daily_cost r - avg_cost b\<bar> / sd
      \<and> join_row t r b =
          [\<lparr>RUsageDate = h_usage_date r, RProjectID = h_project_id r,
            RServiceName = h_service_name r, RActualCost = h_daily_cost r,
            RExpectedCost = avg_cost b, RStddevCost = sd,
            RZScore = \<bar>h_daily_cost r - avg_cost b\<bar> / sd\<rparr>])"
  by (simp add: join_row_def NULLIF_def split: option.splits)

lemma join_row_pair:
  assumes "row \<in> set (join_row t r b)"
  shows "RProjectID row = s_project_id b \<and> RServiceName row = s_service_name b
         \<and> (\<exists>sd. stddev_cost b = Some sd \<and> sd \<noteq> 0 \<and> RStddevCost row = sd
                 \<and> RZScore row = \<bar>RActualCost row - RExpectedCost row\<bar> / sd)
         \<and> t < RZScore row"
  using assms join_row_cases [of t r b] by auto

lemma stats_samples:
  assumes "b \<in> set (stats (historical_data table today days) today)"
  shows "avg_cost b = AVG (samples table today days (s_project_id b) (s_service_name b))
       \<and> stddev_cost b = STDDEV (samples table today days (s_project_id b) (s_service_name b))
       \<and> data_points b = length (samples table today days (s_project_id b) (s_service_name b))
       \<and> 7 \<le> length (samples table today days (s_project_id b) (s_service_name b))"
  using assms
  by (auto simp: stats_def group_by_def samples_def)

lemma samples_stats:
  assumes "7 \<le> length (samples table today days p s)"
  shows "\<exists>b\<in>set (stats (historical_data table today days) today).
           s_project_id b = p \<and> s_service_name b = s"
proof -
  let ?hs = "filter (\<lambda>h. h_usage_date h < today - 1) (historical_data table today days)"
  let ?key = "\<lambda>h. (h_project_id h, h_service_name h)"
  from assms have "filter (\<lambda>h. ?key h = (p, s)) ?hs \<noteq> []"
    by (auto simp: samples_def)
  then obtain h where "h \<in> set ?hs" "?key h = (p, s)"
    by (metis (mono_tags, lifting) filter_False) 
  then have "(p, s) \<in> set (map ?key ?hs)" by force
  with assms show ?thesis
    unfolding stats_def group_by_def samples_def
    by (force simp: image_iff)
qed

lemma detect_rows:
  assumes "DetectAnomalies ca days T = Inr as" "a \<in> set as"
  shows "\<exists>row\<in>set (anomaly_query (billing ca) (current_date ca) days (fmt_f T)).
           a = anomaly_of_row row"
proof -
  let ?rows = "anomaly_query (billing ca) (current_date ca) days (fmt_f T)"
  have sub: "set (rows_read ca ?rows) \<subseteq> set ?rows"
    by (auto simp: rows_read_def split: option.splits dest: in_set_takeD)
  from assms have "a \<in> anomaly_of_row ` set (rows_read ca ?rows)"
    by (auto simp: DetectAnomalies_def split: if_splits)
  with sub show ?thesis by blast
qed

lemma no_finding_without_baseline:
  assumes "DetectAnomalies ca days T = Inr as" "a \<in> set as"
  shows "\<exists>b\<in>set (stats (historical_data (billing ca) (current_date ca) days) (current_date ca)).
           s_project_id b = ProjectID a \<and> s_service_name b = ServiceName a
           \<and> (\<exists>sd. stddev_cost b = Some sd \<and> sd \<noteq> 0)"
proof -
  from detect_rows [OF assms] obtain row
    where row: "row \<in> set (anomaly_query (billing ca) (current_date ca) days (fmt_f T))"
      and a: "a = anomaly_of_row row" by blast
  from row obtain r b
    where b: "b \<in> set (stats (historical_data (billing ca) (current_date ca) days) (current_date ca))"
      and j: "row \<in> set (join_row (fmt_f T) r b)"
    by (auto simp: anomaly_query_set)
  from join_row_pair [OF j] a have "s_project_id b = ProjectID a" "s_service_name b = ServiceName a"
    "\<exists>sd. stddev_cost b = Some sd \<and> sd \<noteq> 0"
    by (auto simp: anomaly_of_row_def)
  with b show ?thesis by blast
qed

lemma sum_list_const:
  "\<forall>x\<in>set xs. x = (c::real) \<Longrightarrow> sum_list xs = real (length xs) * c"
  by (induction xs) (auto simp: algebra_simps)

lemma STDDEV_identical:
  assumes "\<forall>x\<in>set xs. \<forall>y\<in>set xs. x = y" "2 \<le> length xs"
  shows "STDDEV xs = Some 0"
proof -
  from assms(2) have ne: "xs \<noteq> []" by auto
  define c where "c = hd xs"
  have all: "\<forall>x\<in>set xs. x = c"
    using assms(1) ne by (simp add: c_def)
  have "AVG xs = c"
    using ne by (simp add: AVG_def sum_list_const [OF all])
  then have "map (\<lambda>x. (x - AVG xs)\<^sup>2) xs = map (\<lambda>x. 0) xs"
    using all by simp
  then have "sum_list (map (\<lambda>x. (x - AVG xs)\<^sup>2) xs) = sum_list (map (\<lambda>x. 0) xs)"
    by (rule arg_cong)
  then show ?thesis
    using assms(2) by (simp add: STDDEV_def)
qed

subsection \<open>Zero variance\<close>

text \<open>
  Claim C3. A pair whose historical daily costs are all identical has the standard
  deviation zero, \<^verbatim>\<open>NULLIF\<close> turns it into \<^verbatim>\<open>NULL\<close>, and the \<^verbatim>\<open>WHERE\<close> clause drops the
  row: the pair is in no finding, whatever the cost of the evaluation day.
\<close>

theorem zero_variance_exclusion:
  assumes "\<forall>x\<in>set (samples (billing ca) (current_date ca) days p s).
             \<forall>y\<in>set (samples (billing ca) (current_date ca) days p s). x = y"
    and "DetectAnomalies ca days T = Inr as"
  shows "\<forall>a\<in>set as. \<not> (ProjectID a = p \<and> ServiceName a = s)"
proof (intro ballI notI)
  fix a assume a: "a \<in> set as" and ps: "ProjectID a = p \<and> ServiceName a = s"
  from no_finding_without_baseline [OF assms(2) a] ps obtain b sd
    where b: "b \<in> set (stats (historical_data (billing ca) (current_date ca) days) (current_date ca))"
      and k: "s_project_id b = p" "s_service_name b = s"
      and sd: "stddev_cost b = Some sd" "sd \<noteq> 0" by auto
  from stats_samples [OF b] k
  have st: "stddev_cost b = STDDEV (samples (billing ca) (current_date ca) days p s)"
    and len: "7 \<le> length (samples (billing ca) (current_date ca) days p s)" by auto
  from STDDEV_identical [OF assms(1)] len
  have "STDDEV (samples (billing ca) (current_date ca) days p s) = Some 0" by simp
  with st sd show False by simp
qed

text \<open>
  The scenario of the specification, seven days at 10 and then 50, beside a second service
  whose history varies: only the second one is reported.
\<close>

theorem zero_variance_exclusion_witness:
  "samples (billing (client flat_and_noisy)) (current_date (client flat_and_noisy)) 30 ''P'' ''S''
     = [10, 10, 10, 10, 10, 10, 10]
   \<and> DetectAnomalies (client flat_and_noisy) 30 2 =
       Inr [\<lparr>ADate = 19, ProjectID = ''P'', ServiceName = ''T'', ActualCost = 50,
             ExpectedCost = 10, DeviationPct = Finite 400, Severity = ''High''\<rparr>]"
proof -
  have s: "samples (billing (client flat_and_noisy)) (current_date (client flat_and_noisy)) 30 ''P'' ''S''
     = [10, 10, 10, 10, 10, 10, 10]"
    by (simp add: ev samples_def flat_and_noisy_def)
  have d: "DetectAnomalies (client flat_and_noisy) 30 2 =
       Inr [\<lparr>ADate = 19, ProjectID = ''P'', ServiceName = ''T'', ActualCost = 50,
             ExpectedCost = 10, DeviationPct = Finite 400, Severity = ''High''\<rparr>]"
    (is "_ = Inr ?as")
  proof -
    have "\<exists>as. DetectAnomalies (client flat_and_noisy) 30 2 = Inr as"
      by (simp add: DetectAnomalies_def client_def)
    then obtain as where as: "DetectAnomalies (client flat_and_noisy) 30 2 = Inr as" ..
    have "\<forall>a\<in>set as. \<not> (ProjectID a = ''P'' \<and> ServiceName a = ''S'')"
      by (rule zero_variance_exclusion [OF _ as]) (simp add: s)
    with as show ?thesis
      by (simp add: ev flat_and_noisy_def)
  qed
  from s d show ?thesis by simp
qed


subsection \<open>Baseline gating\<close>

text \<open>
  Claim C8. A pair with fewer than seven historical samples (six, in particular) is in no
  finding; a pair with at least seven has a baseline, its mean and standard deviation
  taken over those samples; and the method reports no error for a pair it drops: its
  only error is the failure of the query.
\<close>

theorem baseline_gating:
  "(length (samples (billing ca) (current_date ca) days p s) < 7 \<longrightarrow>
      (\<forall>as. DetectAnomalies ca days T = Inr as \<longrightarrow>
         (\<forall>a\<in>set as. \<not> (ProjectID a = p \<and> ServiceName a = s))))
   \<and> (7 \<le> length (samples (billing ca) (current_date ca) days p s) \<longrightarrow>
      (\<exists>b\<in>set (stats (historical_data (billing ca) (current_date ca) days) (current_date ca)).
         s_project_id b = p \<and> s_service_name b = s
         \<and> avg_cost b = AVG (samples (billing ca) (current_date ca) days p s)
         \<and> stddev_cost b = STDDEV (samples (billing ca) (current_date ca) days p s)))
   \<and> (\<forall>e. DetectAnomalies ca days T = Inl e \<longrightarrow> read_fails ca \<and> e = AnomalyQueryFailed)"
proof (intro conjI impI allI ballI notI)
  fix as a
  assume few: "length (samples (billing ca) (current_date ca) days p s) < 7"
    and as: "DetectAnomalies ca days T = Inr as" and a: "a \<in> set as"
    and ps: "ProjectID a = p \<and> ServiceName a = s"
  from no_finding_without_baseline [OF as a] ps obtain b
    where "b \<in> set (stats (historical_data (billing ca) (current_date ca) days) (current_date ca))"
      and "s_project_id b = p" "s_service_name b = s" by auto
  with stats_samples [of b] have "7 \<le> length (samples (billing ca) (current_date ca) days p s)"
    by auto
  with few show False by simp
next
  assume "7 \<le> length (samples (billing ca) (current_date ca) days p s)"
  from samples_stats [OF this] obtain b
    where b: "b \<in> set (stats (historical_data (billing ca) (current_date ca) days) (current_date ca))"
      and k: "s_project_id b = p" "s_service_name b = s" by blast
  from stats_samples [OF b] k b
  show "\<exists>b\<in>set (stats (historical_data (billing ca) (current_date ca) days) (current_date ca)).
         s_project_id b = p \<and> s_service_name b = s
         \<and> avg_cost b = AVG (samples (billing ca) (current_date ca) days p s)
         \<and> stddev_cost b = STDDEV (samples (billing ca) (current_date ca) days p s)"
    by auto
next
  fix e assume "DetectAnomalies ca days T = Inl e"
  then show "read_fails ca" "e = AnomalyQueryFailed"
    by (auto simp: DetectAnomalies_def split: if_splits)
qed

text \<open>Six days of history give no finding, the same history with a seventh day gives one.\<close>

theorem baseline_gating_witness:
  "length (samples (billing (client six_days)) (current_date (client six_days)) 30 ''P'' ''S'') = 6
   \<and> DetectAnomalies (client six_days) 30 2 = Inr []
   \<and> length (samples (billing (client seven_days)) (current_date (client seven_days)) 30 ''P'' ''S'') = 7
   \<and> DetectAnomalies (client seven_days) 30 2 =
       Inr [\<lparr>ADate = 19, ProjectID = ''P'', ServiceName = ''S'', ActualCost = 50,
             ExpectedCost = 10, DeviationPct = Finite 400, Severity = ''High''\<rparr>]"
  using baseline_gating [of "client six_days" 30 "''P''" "''S''" 2]
    baseline_gating [of "client seven_days" 30 "''P''" "''S''" 2]
  by (simp add: ev samples_def six_days_def seven_days_def)

subsection \<open>Severity\<close>

text \<open>
  Claim C4. Every finding comes from a row of the query whose z-score is above the
  threshold given to the query; its severity is High above 3, Medium above 2 and up to 3,
  and Low up to 2.
\<close>

theorem severity_thresholds:
  assumes "DetectAnomalies ca days T = Inr as"
  shows "length as = length (rows_read ca (anomaly_query (billing ca) (current_date ca) days (fmt_f T)))
    \<and> (\<forall>i<length as.
         let row = rows_read ca (anomaly_query (billing ca) (current_date ca) days (fmt_f T)) ! i;
             z = RZScore row
         in z = \<bar>ActualCost (as ! i) - ExpectedCost (as ! i)\<bar> / RStddevCost row
            \<and> fmt_f T < z
            \<and> (3 < z \<longrightarrow> Severity (as ! i) = ''High'')
            \<and> (2 < z \<and> z \<le> 3 \<longrightarrow> Severity (as ! i) = ''Medium'')
            \<and> (T < z \<and> z \<le> 2 \<longrightarrow> Severity (as ! i) = ''Low''))"
proof -
  let ?rows = "rows_read ca (anomaly_query (billing ca) (current_date ca) days (fmt_f T))"
  from assms have as: "as = map anomaly_of_row ?rows"
    by (simp add: DetectAnomalies_def split: if_splits)
  have sub: "set ?rows \<subseteq> set (anomaly_query (billing ca) (current_date ca) days (fmt_f T))"
    by (auto simp: rows_read_def split: option.splits dest: in_set_takeD)
  {
    fix i assume i: "i < length as"
    then have "?rows ! i \<in> set ?rows" by (simp add: as)
    with sub obtain r b where "?rows ! i \<in> set (join_row (fmt_f T) r b)"
      by (auto simp: anomaly_query_set)
    from join_row_pair [OF this] i
    have "RZScore (?rows ! i) = \<bar>ActualCost (as ! i) - ExpectedCost (as ! i)\<bar> / RStddevCost (?rows ! i)"
      "fmt_f T < RZScore (?rows ! i)"
      by (auto simp: as anomaly_of_row_def)
    moreover from i have "Severity (as ! i) = severity_of (RZScore (?rows ! i))"
      by (simp add: as anomaly_of_row_def)
    ultimately have "let row = ?rows ! i; z = RZScore row
         in z = \<bar>ActualCost (as ! i) - ExpectedCost (as ! i)\<bar> / RStddevCost row
            \<and> fmt_f T < z
            \<and> (3 < z \<longrightarrow> Severity (as ! i) = ''High'')
            \<and> (2 < z \<and> z \<le> 3 \<longrightarrow> Severity (as ! i) = ''Medium'')
            \<and> (T < z \<and> z \<le> 2 \<longrightarrow> Severity (as ! i) = ''Low'')"
      by (simp add: Let_def severity_of_def)
  }
  then show ?thesis by (simp add: as)
qed

text \<open>A z-score of exactly 3 is Medium.\<close>

theorem severity_thresholds_witness:
  "DetectAnomalies (client at_three) 30 2 =
     Inr [\<lparr>ADate = 19, ProjectID = ''P'', ServiceName = ''S'', ActualCost = 13,
           ExpectedCost = 10, DeviationPct = Finite 30, Severity = ''Medium''\<rparr>]
   \<and> map RZScore (rows_read (client at_three)
        (anomaly_query (billing (client at_three)) (current_date (client at_three)) 30 (fmt_f 2))) = [3]"
  using severity_thresholds [of "client at_three" 30 2
      "[\<lparr>ADate = 19, ProjectID = ''P'', ServiceName = ''S'', ActualCost = 13,
           ExpectedCost = 10, DeviationPct = Finite 30, Severity = ''Medium''\<rparr>]"]
  by (simp add: ev at_three_def)

subsection \<open>Deviation percentage\<close>

text \<open>
  Claim C2. The loop divides by the expected cost without looking at it. On a history
  with mean zero the finding carries the result of a division by zero.
\<close>

theorem deviation_division_by_zero:
  "DetectAnomalies (client zero_mean) 30 2 =
     Inr [\<lparr>ADate = 19, ProjectID = ''P'', ServiceName = ''S'', ActualCost = 40,
           ExpectedCost = 0, DeviationPct = PosInf, Severity = ''High''\<rparr>]"
  by (simp add: ev zero_mean_def)

text \<open>Whenever the expected cost is zero the deviation is an infinity or NaN.\<close>

lemma deviation_not_finite:
  "ExpectedCost (anomaly_of_row row) = 0 \<Longrightarrow>
     DeviationPct (anomaly_of_row row) \<in> {PosInf, NegInf, NaN}"
  by (simp add: anomaly_of_row_def fdiv_def fmul_def)

section \<open>Properties of GetCostTrends\<close>

text \<open>
  Claim C1. On one day, project P1 uses the services S1 and S2 and project P2 uses S1. The
  total of the day is 7; in both maps a later entry has replaced an earlier one with the
  same key, and the values of either map sum to 6.
\<close>

theorem breakdown_overwritten:
  "\<exists>t. GetCostTrends (client overlapping) 30 = Inr [t]
     \<and> Date t = 19 \<and> TotalCost t = 7
     \<and> sum_values (ServiceCost t) = 6 \<and> sum_values (ProjectCost t) = 6"
  by (simp add: ev_trends overlapping_def sum_values_def)

text \<open>
  The arrays of the query do add up to the total of the day, and a map keeps the sum of
  its array as long as no key occurs twice in it.
\<close>

lemma sum_values_update:
  assumes "finite (dom m)" "k \<notin> dom m"
  shows "sum_values (m(k \<mapsto> v)) = sum_values m + v"
proof -
  have "(\<Sum>j\<in>dom m. case (m(k \<mapsto> v)) j of None \<Rightarrow> 0 | Some x \<Rightarrow> x)
      = (\<Sum>j\<in>dom m. case m j of None \<Rightarrow> 0 | Some x \<Rightarrow> x)"
    using assms(2) by (intro sum.cong) auto
  with assms show ?thesis
    by (simp add: sum_values_def)
qed

lemma fold_store_sum:
  assumes "finite (dom m)" "distinct (map fst es)" "fst ` set es \<inter> dom m = {}"
  shows "sum_values (fold (\<lambda>e m. m(fst e \<mapsto> snd e)) es m) = sum_values m + sum_list (map snd es)"
  using assms
proof (induction es arbitrary: m)
  case Nil
  then show ?case by simp
next
  case (Cons e es)
  from Cons.prems have fresh: "fst e \<notin> dom m" and d: "distinct (map fst es)"
    and e: "fst e \<notin> fst ` set es" and rest: "fst ` set es \<inter> dom m = {}"
    by auto
  have fin: "finite (dom (m(fst e \<mapsto> snd e)))"
    using Cons.prems(1) by simp
  have disj: "fst ` set es \<inter> dom (m(fst e \<mapsto> snd e)) = {}"
    using e rest by auto
  have "sum_values (fold (\<lambda>e m. m(fst e \<mapsto> snd e)) es (m(fst e \<mapsto> snd e)))
      = sum_values (m(fst e \<mapsto> snd e)) + sum_list (map snd es)"
    by (rule Cons.IH [OF fin d disj])
  also have "sum_values (m(fst e \<mapsto> snd e)) = sum_values m + snd e"
    by (rule sum_values_update [OF Cons.prems(1) fresh])
  finally show ?case by simp
qed

lemma collect_costs_distinct:
  "distinct (map fst es) \<Longrightarrow> sum_values (collect_costs es) = sum_list (map snd es)"
  using fold_store_sum [of Map.empty es] by (simp add: collect_costs_def sum_values_def)

lemma query_row_totals:
  assumes "row \<in> set (cost_trends_query table today days)"
  shows "DailyTotal row = sum_list (map snd (ServiceCosts row))
       \<and> DailyTotal row = sum_list (map snd (ProjectCosts row))"
  using assms
  by (auto simp: cost_trends_query_def aggregated_costs_def group_by_def comp_def)

lemma partition_when_keys_distinct:
  assumes "GetCostTrends ca days = Inr trends" "i < length trends"
  shows "(distinct (map fst (ServiceCosts
            (rows_read ca (cost_trends_query (billing ca) (current_date ca) days) ! i)))
          \<longrightarrow> sum_values (ServiceCost (trends ! i)) = TotalCost (trends ! i))
       \<and> (distinct (map fst (ProjectCosts
            (rows_read ca (cost_trends_query (billing ca) (current_date ca) days) ! i)))
          \<longrightarrow> sum_values (ProjectCost (trends ! i)) = TotalCost (trends ! i))"
proof -
  let ?rows = "rows_read ca (cost_trends_query (billing ca) (current_date ca) days)"
  from assms(1) have t: "trends = map trend_of_row ?rows"
    by (simp add: GetCostTrends_def split: if_splits)
  have sub: "set ?rows \<subseteq> set (cost_trends_query (billing ca) (current_date ca) days)"
    by (auto simp: rows_read_def split: option.splits dest: in_set_takeD)
  from assms(2) have "?rows ! i \<in> set ?rows" by (simp add: t)
  with sub have "?rows ! i \<in> set (cost_trends_query (billing ca) (current_date ca) days)" by blast
  from query_row_totals [OF this] assms(2) show ?thesis
    by (simp add: t trend_of_row_def collect_costs_distinct)
qed

section \<open>Properties of ForecastCosts\<close>

subsection \<open>The regression\<close>

text \<open>The loop computes the four sums, and so the closed form.\<close>

lemma sums_loop_sums:
  "sums_loop i ts (a, b, c, d) =
     (a + (\<Sum>k<length ts. real (i + k)),
      b + (\<Sum>k<length ts. TotalCost (ts ! k)),
      c + (\<Sum>k<length ts. real (i + k) * TotalCost (ts ! k)),
      d + (\<Sum>k<length ts. real (i + k) * real (i + k)))"
proof (induction ts arbitrary: i a b c d)
  case Nil
  then show ?case by simp
next
  case (Cons t ts)
  show ?case
    by (simp add: Cons.IH sum.lessThan_Suc_shift algebra_simps del: sum.lessThan_Suc)
qed

lemma regression_ols:
  "regression trends = (ols_slope (map TotalCost trends), ols_intercept (map TotalCost trends))"
proof -
  have 1: "(\<Sum>k<length trends. map TotalCost trends ! k) = (\<Sum>k<length trends. TotalCost (trends ! k))"
    by (rule sum.cong) simp_all
  have 2: "(\<Sum>k<length trends. real k * map TotalCost trends ! k)
         = (\<Sum>k<length trends. real k * TotalCost (trends ! k))"
    by (rule sum.cong) simp_all
  show ?thesis
    by (simp add: regression_def sums_loop_sums ols_slope_def ols_intercept_def 1 2
        power2_eq_square Let_def)
qed






lemma forecast_point_ols:
  "forecast_point trends i =
     \<lparr>Date = Date (last trends) + i,
      TotalCost = floor_rule (TotalCost (last trends))
        (ols_slope (map TotalCost trends) * real_of_int (int (length trends) + i - 1)
           + ols_intercept (map TotalCost trends)),
      ServiceCost = Map.empty, ProjectCost = Map.empty\<rparr>"
  by (simp add: forecast_point_def regression_ols floor_rule_def Let_def)



subsection \<open>The forecast\<close>




subsection \<open>Insufficient data\<close>

text \<open>
  Claim C6. The method fails with the insufficient-data error exactly when the history
  has fewer than seven points; the regression is in the other branch. The only other
  error is the one \<^verbatim>\<open>GetCostTrends\<close> returned.
\<close>

theorem insufficient_data:
  "(forecast trends H = Inl InsufficientData \<longleftrightarrow> length trends < 7)
   \<and> (GetCostTrends ca 30 = Inr trends \<longrightarrow>
        (ForecastCosts ca H = Inl InsufficientData \<longleftrightarrow> length trends < 7))
   \<and> (\<forall>e. GetCostTrends ca 30 = Inl e \<longrightarrow> ForecastCosts ca H = Inl e \<and> e \<noteq> InsufficientData)"
  by (auto simp: forecast_def ForecastCosts_def GetCostTrends_def split: if_splits)

text \<open>Six days of history, seven days, and a query that fails.\<close>

theorem insufficient_data_witness:
  "ForecastCosts (client (history ''P'' ''S'' [2, 4, 6, 8, 10, 12])) 2 = Inl InsufficientData
   \<and> ForecastCosts (client (history ''P'' ''S'' [2, 4, 6, 8, 10, 12, 14])) 2 =
       Inr [\<lparr>Date = 19, TotalCost = 16, ServiceCost = Map.empty, ProjectCost = Map.empty\<rparr>,
            \<lparr>Date = 20, TotalCost = 18, ServiceCost = Map.empty, ProjectCost = Map.empty\<rparr>]
   \<and> ForecastCosts (client [] \<lparr>read_fails := True\<rparr>) 2 = Inl QueryFailed"
  using insufficient_data [of _ 2 "client (history ''P'' ''S'' [2, 4, 6, 8, 10, 12])"]
    insufficient_data [of _ 2 "client (history ''P'' ''S'' [2, 4, 6, 8, 10, 12, 14])"]
    insufficient_data [of _ 2 "client [] \<lparr>read_fails := True\<rparr>"]
  by (simp add: ev_trends ev_forecast)

subsection \<open>Horizon zero or negative\<close>

text \<open>
  Claim C10. With a horizon of zero or below the loop body never runs: from seven points
  or more the method returns the empty sequence and no error. The horizon plays no part
  in the insufficient-data check, which still fails a history of fewer than seven points.
\<close>

theorem empty_horizon:
  assumes "GetCostTrends ca 30 = Inr trends" and "days \<le> 0"
  shows "ForecastCosts ca days = (if length trends < 7 then Inl InsufficientData else Inr [])"
  using assms by (simp add: ForecastCosts_def forecast_def)

text \<open>Seven days of history with the horizons 0 and -3; six days with the horizon 0.\<close>

theorem empty_horizon_witness:
  "length (projr (GetCostTrends (client (history ''P'' ''S'' [2, 4, 6, 8, 10, 12, 14])) 30)) = 7
   \<and> ForecastCosts (client (history ''P'' ''S'' [2, 4, 6, 8, 10, 12, 14])) 0 = Inr []
   \<and> ForecastCosts (client (history ''P'' ''S'' [2, 4, 6, 8, 10, 12, 14])) (- 3) = Inr []
   \<and> ForecastCosts (client (history ''P'' ''S'' [2, 4, 6, 8, 10, 12])) 0 = Inl InsufficientData"
  using empty_horizon [of "client (history ''P'' ''S'' [2, 4, 6, 8, 10, 12, 14])" _ 0]
    empty_horizon [of "client (history ''P'' ''S'' [2, 4, 6, 8, 10, 12, 14])" _ "- 3"]
    empty_horizon [of "client (history ''P'' ''S'' [2, 4, 6, 8, 10, 12])" _ 0]
  by (simp add: ev_trends)

subsection \<open>The floor rule\<close>

text \<open>
  A negative prediction is replaced by nine tenths of the last historical total, and the
  result is not negative when that total is not.
\<close>

lemma floor_rule_substitutes:
  "predicted < 0 \<Longrightarrow> floor_rule lastTotal predicted = 0.9 * lastTotal"
  by (simp add: floor_rule_def)

lemma forecast_point_nonneg:
  "0 \<le> TotalCost (last trends) \<Longrightarrow> 0 \<le> TotalCost (forecast_point trends i)"
  by (simp add: forecast_point_ols floor_rule_def)

text \<open>
  Claim C5. When the last historical total is itself negative the substitute is negative
  too. Here the totals of a week fall from 12 to 2 and end at -1 (a cost of 4 with a
  credit of -5): both predictions are negative and both forecast points are -0.9.
\<close>

theorem negative_fallback:
  "ForecastCosts (client falling) 2 =
     Inr [\<lparr>Date = 19, TotalCost = - (9 / 10), ServiceCost = Map.empty, ProjectCost = Map.empty\<rparr>,
          \<lparr>Date = 20, TotalCost = - (9 / 10), ServiceCost = Map.empty, ProjectCost = Map.empty\<rparr>]"
  by (simp add: ev_trends ev_forecast falling_def)

subsection \<open>An arithmetic progression\<close>

text \<open>
  In exact arithmetic the line through ten totals that grow by 5 a day from \<open>a\<close> has the
  slope 5 and the intercept \<open>a\<close>, for every \<open>a\<close>.
\<close>

lemma regression_progression:
  assumes "length trends = 10"
    and "\<forall>i<10. TotalCost (trends ! i) = a + 5 * real i"
  shows "regression trends = (5, a)"
proof -
  let ?ys = "map TotalCost trends"
  have n: "length ?ys = 10" using assms(1) by simp
  have y: "?ys ! i = a + 5 * real i" if "i < 10" for i
    using that assms by simp
  have sx: "(\<Sum>i<10. real i) = 45" "(\<Sum>i<10::nat. (real i)\<^sup>2) = 285"
    by (simp_all add: eval_nat_numeral)
  have "(\<Sum>i<10. ?ys ! i) = (\<Sum>i<10. a + 5 * real i)"
    by (rule sum.cong) (simp_all add: y)
  then have sy: "(\<Sum>i<10. ?ys ! i) = 10 * a + 225"
    by (simp add: eval_nat_numeral)
  have "(\<Sum>i<10. real i * ?ys ! i) = (\<Sum>i<10. real i * (a + 5 * real i))"
    by (rule sum.cong) (simp_all add: y)
  then have sxy: "(\<Sum>i<10. real i * ?ys ! i) = 45 * a + 1425"
    by (simp add: eval_nat_numeral algebra_simps)
  have slope: "ols_slope ?ys = 5"
    unfolding ols_slope_def n sx sy sxy by (simp add: algebra_simps)
  have intercept: "ols_intercept ?ys = a"
    unfolding ols_intercept_def slope n sx sy by simp
  show ?thesis
    by (simp add: regression_ols slope intercept)
qed

text \<open>
  Rounding leaves a whole number below \<open>2 ^ 53\<close> in magnitude as it is; in general it takes
  the nearest number with a significand of 53 bits at the exponent of the binade.
\<close>

lemma round_half_even_of_int: "round_half_even (of_int m) = m"
  by (simp add: round_half_even_def)

lemma rnd_binade:
  assumes "2 powr of_int k \<le> \<bar>x\<bar>" "\<bar>x\<bar> < 2 powr (of_int k + 1)"
  shows "rnd x = of_int (round_half_even (x / 2 powr (of_int k - 52))) * 2 powr (of_int k - 52)"
proof -
  have pos: "0 < \<bar>x\<bar>"
    using assms(1) by (smt (verit) powr_gt_zero)
  have "of_int k \<le> log 2 \<bar>x\<bar>"
    using assms(1) pos by (simp add: le_log_iff)
  moreover have "log 2 \<bar>x\<bar> < of_int k + 1"
    using assms(2) pos by (simp add: log_less_iff)
  ultimately have "\<lfloor>log 2 \<bar>x\<bar>\<rfloor> = k"
    by (simp add: floor_unique)
  with pos show ?thesis by (simp add: rnd_def)
qed

lemma rnd_exact:
  assumes "x \<in> \<int>" "\<bar>x\<bar> < 2 ^ 53"
  shows "rnd x = x"
proof (cases "x = 0")
  case True
  then show ?thesis by (simp add: rnd_def)
next
  case False
  from assms(1) obtain z where x: "x = of_int z" by (rule Ints_cases)
  with False have "z \<noteq> 0" by auto
  then have one: "1 \<le> \<bar>x\<bar>" by (simp add: x flip: of_int_abs)
  define k where "k = \<lfloor>log 2 \<bar>x\<bar>\<rfloor>"
  have "0 \<le> log 2 \<bar>x\<bar>" using one by simp
  then have k0: "0 \<le> k" by (simp add: k_def)
  have "log 2 \<bar>x\<bar> < 53"
    using one assms(2) by (simp add: log_less_iff)
  then have k52: "k \<le> 52" unfolding k_def by linarith
  define j where "j = nat (52 - k)"
  have "of_int k - 52 = - real j"
    using k52 by (simp add: j_def)
  then have p: "(2::real) powr (of_int k - 52) = 1 / 2 ^ j"
    by (simp add: powr_minus powr_realpow inverse_eq_divide)
  have q: "x / 2 powr (of_int k - 52) = of_int (z * 2 ^ j)"
    by (simp add: p x)
  have "rnd x = of_int (round_half_even (x / 2 powr (of_int k - 52))) * 2 powr (of_int k - 52)"
    using False by (simp add: rnd_def k_def)
  also have "\<dots> = of_int (z * 2 ^ j) * 2 powr (of_int k - 52)"
    by (simp only: q round_half_even_of_int)
  also have "\<dots> = of_int (z * 2 ^ j) * (1 / 2 ^ j)"
    by (simp only: p)
  also have "\<dots> = x" by (simp add: x)
  finally show ?thesis .
qed


lemma exact_lt: "x \<in> \<int> \<Longrightarrow> \<bar>x\<bar> < 9007199254740992 \<Longrightarrow> rnd x = x"
  using rnd_exact [of x] by simp

lemma rnd_nine_tenths: "rnd (9 / 10) = 8106479329266893 / 9007199254740992"
  by (subst rnd_binade [of "- 1"]) (simp_all add: round_half_even_def powr_neg_numeral)

lemma rnd_fallback: "rnd (- (445856363109679115 / 9007199254740992)) = - (99 / 2)"
  by (subst rnd_binade [of 5]) (simp_all add: round_half_even_def powr_neg_numeral)

text \<open>
  On whole-number totals up to \<open>10 ^ 13\<close> in magnitude every operation of the loop and of the
  two divisions is exact, so the rounded regression gives the slope 5 and the intercept
  as well.
\<close>

lemma ten_elements:
  assumes "length ts = 10"
  shows "ts = [ts ! 0, ts ! 1, ts ! 2, ts ! 3, ts ! 4, ts ! 5, ts ! 6, ts ! 7, ts ! 8, ts ! 9]"
proof -
  have a: "map ((!) ts) [0..<10] = [ts ! 0, ts ! 1, ts ! 2, ts ! 3, ts ! 4,
      ts ! 5, ts ! 6, ts ! 7, ts ! 8, ts ! 9]"
    by (simp add: eval_nat_numeral upt_rec)
  have b: "map ((!) ts) [0..<10] = ts"
    using map_nth [of ts] by (simp only: assms)
  show ?thesis by (rule trans [OF b [symmetric] a])
qed

lemma sums_loop_f64_progression:
  assumes "\<bar>real_of_int z\<bar> \<le> 10000000000000"
    and "TotalCost t0 = of_int z" "TotalCost t1 = of_int z + 5"
    "TotalCost t2 = of_int z + 10" "TotalCost t3 = of_int z + 15"
    "TotalCost t4 = of_int z + 20" "TotalCost t5 = of_int z + 25"
    "TotalCost t6 = of_int z + 30" "TotalCost t7 = of_int z + 35"
    "TotalCost t8 = of_int z + 40" "TotalCost t9 = of_int z + 45"
  shows "sums_loop_f64 0 [t0, t1, t2, t3, t4, t5, t6, t7, t8, t9] (0, 0, 0, 0) =
           (45, 10 * of_int z + 225, 45 * of_int z + 1425, 285)"
  using assms(1) by (simp add: assms(2-) exact_lt)


lemma regression_f64_progression:
  assumes "length trends = 10"
    and "\<forall>i<10. TotalCost (trends ! i) = of_int z + 5 * real i"
    and "\<bar>z\<bar> \<le> 10000000000000"
  shows "regression_f64 trends = (5, of_int z)"
proof -
  have b: "\<bar>real_of_int z\<bar> \<le> 10000000000000"
  proof -
    from assms(3) have "real_of_int \<bar>z\<bar> \<le> real_of_int 10000000000000"
      by (simp only: of_int_le_iff)
    then show ?thesis by simp
  qed
  have y: "TotalCost (trends ! 0) = of_int z" "TotalCost (trends ! 1) = of_int z + 5"
    "TotalCost (trends ! 2) = of_int z + 10" "TotalCost (trends ! 3) = of_int z + 15"
    "TotalCost (trends ! 4) = of_int z + 20" "TotalCost (trends ! 5) = of_int z + 25"
    "TotalCost (trends ! 6) = of_int z + 30" "TotalCost (trends ! 7) = of_int z + 35"
    "TotalCost (trends ! 8) = of_int z + 40" "TotalCost (trends ! 9) = of_int z + 45"
    using assms(2) by simp_all
  have "sums_loop_f64 0 [trends ! 0, trends ! 1, trends ! 2, trends ! 3, trends ! 4,
      trends ! 5, trends ! 6, trends ! 7, trends ! 8, trends ! 9] (0, 0, 0, 0) =
           (45, 10 * of_int z + 225, 45 * of_int z + 1425, 285)"
    by (rule sums_loop_f64_progression [OF b y])
  then have s: "sums_loop_f64 0 trends (0, 0, 0, 0) =
           (45, 10 * of_int z + 225, 45 * of_int z + 1425, 285)"
    by (simp only: ten_elements [OF assms(1), symmetric])
  show ?thesis
    using b by (simp add: regression_f64_def s assms(1) exact_lt)
qed

text \<open>
  Claim C9, as stated, fails on a progression whose continuation is negative: from -100
  the next values would be -50, -45 and -40, and the floor rule replaces each of them by
  the rounded product of -55 and 0.9, which is -49.5.
\<close>

theorem progression_broken:
  "map TotalCost (ramp (- 100)) = [- 100, - 95, - 90, - 85, - 80, - 75, - 70, - 65, - 60, - 55]
   \<and> \<not> isl (forecast_f64 (ramp (- 100)) 3)
   \<and> map TotalCost (projr (forecast_f64 (ramp (- 100)) 3)) = [- (99 / 2), - (99 / 2), - (99 / 2)]
   \<and> map TotalCost (projr (forecast_f64 (ramp (- 100)) 3)) \<noteq> [- 50, - 45, - 40]"
proof -
  have h: "\<forall>i<10. TotalCost (ramp (- 100) ! i) = of_int (- 100) + 5 * real i"
    by (simp add: ramp_def less_Suc_eq eval_nat_numeral)
  have l: "length (ramp (- 100)) = 10" by (simp add: ramp_def)
  have r: "regression_f64 (ramp (- 100)) = (5, - 100)"
    using regression_f64_progression [OF l h] by simp
  have last: "TotalCost (last (ramp (- 100))) = - 55" by (simp add: ramp_def)
  have p: "TotalCost (forecast_point_f64 (ramp (- 100)) i) = - (99 / 2)" if "i \<in> {1, 2, 3}" for i
    using that by (auto simp: forecast_point_f64_def r l last Let_def exact_lt rnd_nine_tenths rnd_fallback)
  have f: "forecast_f64 (ramp (- 100)) 3 = Inr (map (forecast_point_f64 (ramp (- 100))) [1, 2, 3])"
    using l by (simp add: forecast_f64_def upto.simps)
  have t: "map TotalCost (ramp (- 100)) = [- 100, - 95, - 90, - 85, - 80, - 75, - 70, - 65, - 60, - 55]"
    by (simp add: ramp_def)
  show ?thesis
    by (simp add: f t p)
qed

text \<open>
  Claim C9, amended. For ten totals that are whole numbers, at most \<open>10 ^ 13\<close> in magnitude,
  and grow by exactly 5 a day from \<open>z\<close>, the fitted slope is exactly 5 and the intercept
  \<open>z\<close>, with every operation rounded to binary64. With a horizon of three, and the first
  continued value \<open>z + 50\<close> not negative, the three forecast points continue the
  progression exactly, on the three days after the last date.
\<close>

theorem progression_continued:
  assumes "length trends = 10"
    and "\<forall>i<10. TotalCost (trends ! i) = of_int z + 5 * real i"
    and "\<bar>z\<bar> \<le> 10000000000000"
  shows "regression_f64 trends = (5, of_int z)
    \<and> (0 \<le> z + 50 \<longrightarrow>
         (\<exists>fs. forecast_f64 trends 3 = Inr fs
            \<and> map TotalCost fs = [of_int z + 50, of_int z + 55, of_int z + 60]
            \<and> map Date fs = [Date (last trends) + 1, Date (last trends) + 2, Date (last trends) + 3]))"
proof (intro conjI impI)
  show r: "regression_f64 trends = (5, of_int z)"
    by (rule regression_f64_progression [OF assms])
  assume nonneg: "0 \<le> z + 50"
  have b: "\<bar>real_of_int z\<bar> \<le> 10000000000000"
  proof -
    from assms(3) have "real_of_int \<bar>z\<bar> \<le> real_of_int 10000000000000"
      by (simp only: of_int_le_iff)
    then show ?thesis by simp
  qed
  from nonneg have n: "0 \<le> real_of_int z + 50"
    by (metis of_int_0_le_iff of_int_add of_int_numeral)
  have p: "TotalCost (forecast_point_f64 trends i) = of_int z + 5 * real_of_int (9 + i)
         \<and> Date (forecast_point_f64 trends i) = Date (last trends) + i"
    if "i \<in> {1, 2, 3}" for i
    using that b n by (auto simp: forecast_point_f64_def r assms(1) Let_def exact_lt)
  have "forecast_f64 trends 3 = Inr (map (forecast_point_f64 trends) [1, 2, 3])"
    using assms(1) by (simp add: forecast_f64_def upto.simps)
  then show "\<exists>fs. forecast_f64 trends 3 = Inr fs
            \<and> map TotalCost fs = [of_int z + 50, of_int z + 55, of_int z + 60]
            \<and> map Date fs = [Date (last trends) + 1, Date (last trends) + 2, Date (last trends) + 3]"
    using p [of 1] p [of 2] p [of 3] by simp
qed

text \<open>From 100 to 145, continued by 150, 155 and 160.\<close>

theorem progression_continued_witness:
  "length (ramp 100) = 10
   \<and> map TotalCost (ramp 100) = [100, 105, 110, 115, 120, 125, 130, 135, 140, 145]
   \<and> regression_f64 (ramp 100) = (5, 100)
   \<and> map TotalCost (projr (forecast_f64 (ramp 100) 3)) = [150, 155, 160]
   \<and> map Date (projr (forecast_f64 (ramp 100) 3)) = [20, 21, 22]"
proof -
  have h: "\<forall>i<10. TotalCost (ramp 100 ! i) = of_int 100 + 5 * real i"
    by (simp add: ramp_def less_Suc_eq eval_nat_numeral)
  have l: "length (ramp 100) = 10" by (simp add: ramp_def)
  have d: "Date (last (ramp 100)) = 19" by (simp add: ramp_def)
  from progression_continued [OF l h] d l show ?thesis
    by (auto simp: ramp_def)
qed

end
